theory Spec2Isabelle
  imports Complex_Main
begin

section \<open>Parsed JSON documents and Python errors\<close>

text \<open>
  The programs work on what \<^verbatim>\<open>response.json()\<close> returns: nested Python dicts, lists,
  strings, numbers, booleans and None. A dict is an association list with
  distinct keys in insertion order; a number is the rational value of an int or of a
  finite float.
\<close>

datatype json =
    JNull
  | JBool bool
  | JNum rat
  | JStr string
  | JList "json list"
  | JObj "(string \<times> json) list"

text \<open>
  The exceptions that can arise. \<open>ValueError\<close> stands for what
  \<^verbatim>\<open>date.fromtimestamp\<close> raises on a timestamp outside the supported range
  (ValueError, OverflowError or OSError, depending on the platform).
\<close>

datatype error =
    KeyError
  | TypeError
  | IndexError
  | ValueError
  | ZeroDivisionError
  | RequestException

text \<open>\<^verbatim>\<open>obj[key]\<close> with a string key.\<close>

fun subscript :: "json \<Rightarrow> string \<Rightarrow> error + json" where
  "subscript (JObj kvs) k = (case map_of kvs k of None \<Rightarrow> Inl KeyError | Some v \<Rightarrow> Inr v)"
| "subscript _ k = Inl TypeError"

text \<open>
  \<^verbatim>\<open>obj[i]\<close> with one of the integer literals 0 and 1. A list or a string is indexed by
  position; a parsed JSON dict has string keys only, so an integer key is missing; anything
  else is not subscriptable.
\<close>

fun subscript_idx :: "json \<Rightarrow> nat \<Rightarrow> error + json" where
  "subscript_idx (JList xs) i = (if i < length xs then Inr (xs ! i) else Inl IndexError)"
| "subscript_idx (JStr s) i = (if i < length s then Inr (JStr [s ! i]) else Inl IndexError)"
| "subscript_idx (JObj kvs) i = Inl KeyError"
| "subscript_idx _ i = Inl TypeError"

text \<open>The numeric value of a Python number; \<^verbatim>\<open>bool\<close> is a subclass of \<^verbatim>\<open>int\<close>.\<close>

fun py_num :: "json \<Rightarrow> rat option" where
  "py_num (JNum r) = Some r"
| "py_num (JBool b) = Some (if b then 1 else 0)"
| "py_num _ = None"

text \<open>\<^verbatim>\<open>len(obj)\<close> and \<^verbatim>\<open>for x in obj\<close>.\<close>

fun py_len :: "json \<Rightarrow> error + nat" where
  "py_len (JList xs) = Inr (length xs)"
| "py_len (JStr s) = Inr (length s)"
| "py_len (JObj kvs) = Inr (length kvs)"
| "py_len _ = Inl TypeError"

fun py_iter :: "json \<Rightarrow> error + json list" where
  "py_iter (JList xs) = Inr xs"
| "py_iter (JStr s) = Inr (map (\<lambda>c. JStr [c]) s)"
| "py_iter (JObj kvs) = Inr (map (\<lambda>kv. JStr (fst kv)) kvs)"
| "py_iter _ = Inl TypeError"

section \<open>earthquakes.py\<close>

definition count_earthquakes :: "json \<Rightarrow> error + nat" where
  "count_earthquakes data =
     (case subscript data ''features'' of Inl e \<Rightarrow> Inl e | Inr fs \<Rightarrow> py_len fs)"

definition get_magnitude :: "json \<Rightarrow> error + json" where
  "get_magnitude earthquake =
     (case subscript earthquake ''properties'' of
        Inl e \<Rightarrow> Inl e
      | Inr props \<Rightarrow> subscript props ''mag'')"

definition get_location :: "json \<Rightarrow> error + (json \<times> json)" where
  "get_location earthquake =
     (case subscript earthquake ''geometry'' of
        Inl e \<Rightarrow> Inl e
      | Inr geometry \<Rightarrow>
          (case subscript geometry ''coordinates'' of
             Inl e \<Rightarrow> Inl e
           | Inr coordinates \<Rightarrow>
               (case subscript_idx coordinates 1 of
                  Inl e \<Rightarrow> Inl e
                | Inr latitude \<Rightarrow>
                    (case subscript_idx coordinates 0 of
                       Inl e \<Rightarrow> Inl e
                     | Inr longitude \<Rightarrow> Inr (latitude, longitude)))))"

text \<open>
  The loop of \<^verbatim>\<open>get_maximum\<close>. Its state is \<open>(max_magnitude, max_earthquake)\<close>,
  initially \<open>(-1, None)\<close>. \<open>max_magnitude\<close> is \<open>-1\<close> or a magnitude that compared
  greater than a number, so it is kept as its numeric value; comparing anything that is
  not a number with it raises TypeError.
\<close>

fun maximum_loop :: "json list \<Rightarrow> rat \<times> json \<Rightarrow> error + (rat \<times> json)" where
  "maximum_loop [] st = Inr st"
| "maximum_loop (earthquake # rest) (max_magnitude, max_earthquake) =
     (case get_magnitude earthquake of
        Inl e \<Rightarrow> Inl e
      | Inr magnitude \<Rightarrow>
          (case py_num magnitude of
             None \<Rightarrow> Inl TypeError
           | Some m \<Rightarrow>
               if m > max_magnitude then maximum_loop rest (m, earthquake)
               else maximum_loop rest (max_magnitude, max_earthquake)))"

definition get_maximum :: "json \<Rightarrow> error + (rat \<times> (json \<times> json))" where
  "get_maximum data =
     (case subscript data ''features'' of
        Inl e \<Rightarrow> Inl e
      | Inr fs \<Rightarrow>
          (case py_iter fs of
             Inl e \<Rightarrow> Inl e
           | Inr earthquakes \<Rightarrow>
               (case maximum_loop earthquakes (- 1, JNull) of
                  Inl e \<Rightarrow> Inl e
                | Inr (max_magnitude, max_earthquake) \<Rightarrow>
                    (case get_location max_earthquake of
                       Inl e \<Rightarrow> Inl e
                     | Inr max_location \<Rightarrow> Inr (max_magnitude, max_location)))))"

text \<open>The magnitude of a record as a number, when it has one.\<close>

definition magnitude_of :: "json \<Rightarrow> rat option" where
  "magnitude_of earthquake =
     (case get_magnitude earthquake of Inl e \<Rightarrow> None | Inr m \<Rightarrow> py_num m)"

section \<open>plot_earthquakes.py: year derivation\<close>

text \<open>
  The year of a day number counted from 1970-01-01 in the proleptic Gregorian calendar,
  computed as the \<^verbatim>\<open>datetime\<close> module does from a date ordinal: 400-year cycles of
  146097 days, centuries of 36524, four-year cycles of 1461, years of 365. Day 0 has
  ordinal 719163.
\<close>

definition year_of_days :: "int \<Rightarrow> int" where
  "year_of_days d =
     (let n = d + 719162;
          n400 = n div 146097; r400 = n mod 146097;
          n100 = r400 div 36524; r100 = r400 mod 36524;
          n4 = r100 div 1461; r4 = r100 mod 1461;
          n1 = r4 div 365;
          year = n400 * 400 + 1 + n100 * 100 + n4 * 4 + n1
      in if n1 = 4 \<or> n100 = 4 then year - 1 else year)"

text \<open>
  \<^verbatim>\<open>date.fromtimestamp(x).year\<close>. The timestamp is rounded down to whole seconds and
  converted to local time; \<open>utcoffset t\<close> is the offset of the process's time zone from
  UTC, in seconds, at epoch second \<open>t\<close>. Dates exist for the years 1 to 9999 only.
\<close>

definition date_fromtimestamp_year :: "(int \<Rightarrow> int) \<Rightarrow> rat \<Rightarrow> error + int" where
  "date_fromtimestamp_year utcoffset x =
     (let t = \<lfloor>x\<rfloor>;
          year = year_of_days ((t + utcoffset t) div 86400)
      in if 1 \<le> year \<and> year \<le> 9999 then Inr year else Inl ValueError)"

text \<open>
  \<^verbatim>\<open>timestamp / 1000\<close> is true division: it needs a number (else TypeError). Within the
  range of dates the float quotient has the same floor as the exact one.
\<close>

definition get_year :: "(int \<Rightarrow> int) \<Rightarrow> json \<Rightarrow> error + int" where
  "get_year utcoffset earthquake =
     (case subscript earthquake ''properties'' of
        Inl e \<Rightarrow> Inl e
      | Inr props \<Rightarrow>
          (case subscript props ''time'' of
             Inl e \<Rightarrow> Inl e
           | Inr timestamp \<Rightarrow>
               (case py_num timestamp of
                  None \<Rightarrow> Inl TypeError
                | Some t \<Rightarrow> date_fromtimestamp_year utcoffset (t / 1000))))"

section \<open>plot_earthquakes.py: annual statistics\<close>

text \<open>
  \<^verbatim>\<open>d[k] = f(d[k])\<close> on a \<^verbatim>\<open>defaultdict\<close> whose missing entries read as \<open>dflt\<close>: an
  existing key keeps its position, a new one goes to the end.
\<close>

fun dict_update :: "'k \<Rightarrow> ('v \<Rightarrow> 'v) \<Rightarrow> 'v \<Rightarrow> ('k \<times> 'v) list \<Rightarrow> ('k \<times> 'v) list" where
  "dict_update k f dflt [] = [(k, f dflt)]"
| "dict_update k f dflt ((k', v) # kvs) =
     (if k' = k then (k', f v) # kvs else (k', v) # dict_update k f dflt kvs)"

text \<open>
  \<^verbatim>\<open>np.mean\<close> is a function of the numpy library: what it returns for a list, in binary
  floating point, and when it raises, is not decided by this program. It is a parameter
  \<open>np_mean\<close> of the model: given the list of magnitudes of one year it raises or returns
  a float, of a type \<open>'f\<close> left open.
\<close>

text \<open>
  The try block of the loop in \<^verbatim>\<open>get_annual_statistics\<close>: both lookups come before
  both updates, so a record updates the two dictionaries together or not at all.
\<close>

definition year_and_magnitude :: "(int \<Rightarrow> int) \<Rightarrow> json \<Rightarrow> error + (int \<times> json)" where
  "year_and_magnitude utcoffset quake =
     (case get_year utcoffset quake of
        Inl e \<Rightarrow> Inl e
      | Inr year \<Rightarrow>
          (case get_magnitude quake of
             Inl e \<Rightarrow> Inl e
           | Inr magnitude \<Rightarrow> Inr (year, magnitude)))"

fun statistics_loop ::
  "(int \<Rightarrow> int) \<Rightarrow> json list \<Rightarrow> (int \<times> nat) list \<times> (int \<times> json list) list \<Rightarrow>
     error + ((int \<times> nat) list \<times> (int \<times> json list) list)" where
  "statistics_loop utcoffset [] st = Inr st"
| "statistics_loop utcoffset (quake # rest) (quakes_per_year, magnitudes_per_year) =
     (case year_and_magnitude utcoffset quake of
        Inl e \<Rightarrow>
          if e = KeyError \<or> e = TypeError
          then statistics_loop utcoffset rest (quakes_per_year, magnitudes_per_year)
          else Inl e
      | Inr (year, magnitude) \<Rightarrow>
          statistics_loop utcoffset rest
            (dict_update year (\<lambda>c. c + 1) 0 quakes_per_year,
             dict_update year (\<lambda>ms. ms @ [magnitude]) [] magnitudes_per_year))"

text \<open>The dict comprehension computing \<^verbatim>\<open>avg_magnitudes\<close>.\<close>

fun mean_items ::
  "(json list \<Rightarrow> error + 'f) \<Rightarrow> (int \<times> json list) list \<Rightarrow> error + (int \<times> 'f) list" where
  "mean_items np_mean [] = Inr []"
| "mean_items np_mean ((year, magnitudes) # rest) =
     (case np_mean magnitudes of
        Inl e \<Rightarrow> Inl e
      | Inr a \<Rightarrow>
          (case mean_items np_mean rest of
             Inl e \<Rightarrow> Inl e
           | Inr avgs \<Rightarrow> Inr ((year, a) # avgs)))"

definition get_annual_statistics ::
  "(json list \<Rightarrow> error + 'f) \<Rightarrow> (int \<Rightarrow> int) \<Rightarrow> json list \<Rightarrow>
     error + ((int \<times> nat) list \<times> (int \<times> 'f) list)" where
  "get_annual_statistics np_mean utcoffset earthquakes =
     (case statistics_loop utcoffset earthquakes ([], []) of
        Inl e \<Rightarrow> Inl e
      | Inr (quakes_per_year, magnitudes_per_year) \<Rightarrow>
          (case mean_items np_mean magnitudes_per_year of
             Inl e \<Rightarrow> Inl e
           | Inr avg_magnitudes \<Rightarrow> Inr (quakes_per_year, avg_magnitudes)))"

text \<open>
  The records that the loop counts: those for which neither lookup raises. Their years
  and magnitudes, in input order.
\<close>

fun counted :: "(int \<Rightarrow> int) \<Rightarrow> json list \<Rightarrow> (int \<times> json) list" where
  "counted utcoffset [] = []"
| "counted utcoffset (quake # rest) =
     (case year_and_magnitude utcoffset quake of
        Inl e \<Rightarrow> counted utcoffset rest
      | Inr ym \<Rightarrow> ym # counted utcoffset rest)"


text \<open>A record that the except clause skips.\<close>

definition skipped :: "(int \<Rightarrow> int) \<Rightarrow> json \<Rightarrow> bool" where
  "skipped utcoffset quake =
     (year_and_magnitude utcoffset quake = Inl KeyError \<or>
      year_and_magnitude utcoffset quake = Inl TypeError)"

section \<open>plot_earthquakes.py: fetching and sample data\<close>

text \<open>
  Date ordinals as in the \<^verbatim>\<open>datetime\<close> module, for
  \<^verbatim>\<open>(end_date - base_date).days\<close>.
\<close>

definition is_leap :: "int \<Rightarrow> bool" where
  "is_leap year = (year mod 4 = 0 \<and> (year mod 100 \<noteq> 0 \<or> year mod 400 = 0))"

definition days_before_year :: "int \<Rightarrow> int" where
  "days_before_year year =
     (let y = year - 1 in y * 365 + y div 4 - y div 100 + y div 400)"

definition days_before_month :: "int \<Rightarrow> nat \<Rightarrow> int" where
  "days_before_month year month =
     [0, 0, 31, 59, 90, 120, 151, 181, 212, 243, 273, 304, 334] ! month
       + (if month > 2 \<and> is_leap year then 1 else 0)"

definition ymd2ord :: "int \<Rightarrow> nat \<Rightarrow> int \<Rightarrow> int" where
  "ymd2ord year month day = days_before_year year + days_before_month year month + day"

definition days_range :: int where
  "days_range = ymd2ord 2018 10 11 - ymd2ord 2000 1 1"

text \<open>\<^verbatim>\<open>round(x, 1)\<close>: to one decimal place, ties to even.\<close>

definition py_round1 :: "rat \<Rightarrow> rat" where
  "py_round1 x =
     (let y = x * 10; f = \<lfloor>y\<rfloor>; d = y - of_int f;
          n = (if d < 1 / 2 then f else if 1 / 2 < d then f + 1
               else if even f then f else f + 1)
      in of_int n / 10)"

text \<open>\<^verbatim>\<open>f"{i}"\<close> for a non-negative integer.\<close>

fun str_nat :: "nat \<Rightarrow> string" where
  "str_nat n =
     (if n < 10 then [''0123456789'' ! n]
      else str_nat (n div 10) @ [''0123456789'' ! (n mod 10)])"

text \<open>
  What the sample generator takes from its surroundings: \<open>mktime\<close> turns local
  wall-clock seconds counted from 1970-01-01T00:00 into epoch seconds (the time zone of
  the process, as \<^verbatim>\<open>datetime.timestamp\<close> uses it for a naive datetime);
  \<open>randint i\<close> and \<open>uniform i\<close> are the draws \<^verbatim>\<open>random.randint(0, days_range)\<close> and
  \<^verbatim>\<open>random.uniform(1.0, 6.0)\<close> of iteration \<open>i\<close>.
\<close>

record sample_env =
  mktime :: "int \<Rightarrow> int"
  randint :: "nat \<Rightarrow> int"
  uniform :: "nat \<Rightarrow> rat"

definition sample_record :: "sample_env \<Rightarrow> nat \<Rightarrow> json" where
  "sample_record env i =
     (let random_days = randint env i;
          earthquake_time = (ymd2ord 2000 1 1 - ymd2ord 1970 1 1 + random_days) * 86400;
          timestamp = mktime env earthquake_time * 1000;
          magnitude = py_round1 (uniform env i)
      in JObj [(''properties'',
                JObj [(''time'', JNum (of_int timestamp)),
                      (''mag'', JNum magnitude),
                      (''place'', JStr (''Sample Location '' @ str_nat i))])])"

definition create_sample_data :: "sample_env \<Rightarrow> json" where
  "create_sample_data env =
     JObj [(''features'', JList (map (sample_record env) [0..<1000]))]"

text \<open>
  What \<^verbatim>\<open>requests.get\<close> did: it raised a \<^verbatim>\<open>RequestException\<close> (no connection,
  timeout, too many redirects), or it returned a response with a status code, whose
  \<^verbatim>\<open>json()\<close> gives the parsed body or raises.
\<close>

datatype http_outcome =
    RequestFailed
  | Response int "error + json"

text \<open>
  \<^verbatim>\<open>response.raise_for_status()\<close> raises \<^verbatim>\<open>HTTPError\<close>, a
  \<^verbatim>\<open>RequestException\<close>, for the client and server error statuses 400 to 599.
\<close>

definition raise_for_status :: "int \<Rightarrow> error + unit" where
  "raise_for_status status_code =
     (if 400 \<le> status_code \<and> status_code < 600 then Inl RequestException else Inr ())"

text \<open>
  \<^verbatim>\<open>get_data\<close>: the except clause catches \<^verbatim>\<open>RequestException\<close> only and then
  returns the sample data (the message it prints first is left out).
\<close>

definition get_data :: "sample_env \<Rightarrow> http_outcome \<Rightarrow> error + json" where
  "get_data env outcome =
     (let attempt =
            (case outcome of
               RequestFailed \<Rightarrow> Inl RequestException
             | Response status_code body \<Rightarrow>
                 (case raise_for_status status_code of
                    Inl e \<Rightarrow> Inl e
                  | Inr u \<Rightarrow> body))
      in case attempt of
           Inl e \<Rightarrow> if e = RequestException then Inr (create_sample_data env) else Inl e
         | Inr data \<Rightarrow> Inr data)"

section \<open>plot_earthquakes.py: summary\<close>

text \<open>The lines of the summary, by the values they show.\<close>

datatype line =
    Header
  | TimePeriod int int
  | TotalEarthquakes nat
  | YearsCovered nat
  | AveragePerYear rat
  | MostActive int nat
  | LeastActive int nat

text \<open>
  \<^verbatim>\<open>max(d, key=d.get)\<close> and \<^verbatim>\<open>min(d, key=d.get)\<close>: the first key, in the order of
  the dictionary, whose value is largest (smallest); ValueError on an empty dictionary.
\<close>

fun max_key_from :: "int \<times> nat \<Rightarrow> (int \<times> nat) list \<Rightarrow> int" where
  "max_key_from best [] = fst best"
| "max_key_from best (kv # kvs) =
     (if snd kv > snd best then max_key_from kv kvs else max_key_from best kvs)"

fun min_key_from :: "int \<times> nat \<Rightarrow> (int \<times> nat) list \<Rightarrow> int" where
  "min_key_from best [] = fst best"
| "min_key_from best (kv # kvs) =
     (if snd kv < snd best then min_key_from kv kvs else min_key_from best kvs)"

definition max_key :: "(int \<times> nat) list \<Rightarrow> error + int" where
  "max_key d = (case d of [] \<Rightarrow> Inl ValueError | kv # kvs \<Rightarrow> Inr (max_key_from kv kvs))"

definition min_key :: "(int \<times> nat) list \<Rightarrow> error + int" where
  "min_key d = (case d of [] \<Rightarrow> Inl ValueError | kv # kvs \<Rightarrow> Inr (min_key_from kv kvs))"

definition dict_get :: "(int \<times> nat) list \<Rightarrow> int \<Rightarrow> error + nat" where
  "dict_get d k = (case map_of d k of None \<Rightarrow> Inl KeyError | Some v \<Rightarrow> Inr v)"

text \<open>
  \<^verbatim>\<open>print_summary\<close> returns the lines printed and the exception that ended it, if
  any. Each line is printed when its f-string has been evaluated.
\<close>

definition print_summary ::
  "(int \<times> nat) list \<Rightarrow> (int \<times> 'f) list \<Rightarrow> line list \<times> error option" where
  "print_summary quakes_per_year avg_magnitudes =
     (let total_quakes = sum_list (map snd quakes_per_year);
          years = sort (map fst quakes_per_year);
          out1 = [Header]
      in if years = [] then (out1, Some IndexError)
         else
           let out2 = out1 @ [TimePeriod (hd years) (last years),
                              TotalEarthquakes total_quakes,
                              YearsCovered (length years)]
           in if length years = 0 then (out2, Some ZeroDivisionError)
              else
                let out3 = out2 @ [AveragePerYear (of_nat total_quakes / of_nat (length years))]
                in case max_key quakes_per_year of
                     Inl e \<Rightarrow> (out3, Some e)
                   | Inr max_year \<Rightarrow>
                       (case min_key quakes_per_year of
                          Inl e \<Rightarrow> (out3, Some e)
                        | Inr min_year \<Rightarrow>
                            (case dict_get quakes_per_year max_year of
                               Inl e \<Rightarrow> (out3, Some e)
                             | Inr max_count \<Rightarrow>
                                 (case dict_get quakes_per_year min_year of
                                    Inl e \<Rightarrow> (out3 @ [MostActive max_year max_count], Some e)
                                  | Inr min_count \<Rightarrow>
                                      (out3 @ [MostActive max_year max_count,
                                               LeastActive min_year min_count], None)))))"

text \<open>What one counted record does to the two dictionaries.\<close>

definition record_step ::
  "int \<times> json \<Rightarrow> (int \<times> nat) list \<times> (int \<times> json list) list \<Rightarrow>
     (int \<times> nat) list \<times> (int \<times> json list) list" where
  "record_step ym st =
     (dict_update (fst ym) (\<lambda>c. c + 1) 0 (fst st),
      dict_update (fst ym) (\<lambda>ms. ms @ [snd ym]) [] (snd st))"

section \<open>Concrete inputs\<close>

text \<open>A process running in UTC, and a record with the given time and magnitude.\<close>

definition utc :: "int \<Rightarrow> int" where
  "utc t = 0"

definition quake :: "json \<Rightarrow> json \<Rightarrow> json" where
  "quake t m = JObj [(''properties'', JObj [(''time'', t), (''mag'', m)])]"

definition located_quake :: "rat \<Rightarrow> rat \<Rightarrow> rat \<Rightarrow> json" where
  "located_quake m lon lat =
     JObj [(''properties'', JObj [(''mag'', JNum m)]),
           (''geometry'', JObj [(''coordinates'', JList [JNum lon, JNum lat, JNum 0])])]"

definition document :: "json list \<Rightarrow> json" where
  "document fs = JObj [(''features'', JList fs)]"

text \<open>
  A mean with exact arithmetic, to stand for \<^verbatim>\<open>np.mean\<close> in the examples: the sum of a
  list of numbers divided by their number, and TypeError when an element is not a number.
  On the lists of the examples (one number; the integers 2 and 3; a list containing None
  or a string) this is what \<^verbatim>\<open>np.mean\<close> does; nothing is claimed for other lists.
\<close>

definition exact_mean :: "json list \<Rightarrow> error + rat" where
  "exact_mean magnitudes =
     (case those (map py_num magnitudes) of
        None \<Rightarrow> Inl TypeError
      | Some rs \<Rightarrow> Inr (sum_list rs / of_nat (length rs)))"

definition fixed_env :: sample_env where
  "fixed_env = \<lparr>mktime = (\<lambda>s. s), randint = (\<lambda>i. int i), uniform = (\<lambda>i. 5 / 2)\<rparr>"

section \<open>Properties of the maximum scan\<close>

lemma get_location_JNull: "get_location JNull = Inl TypeError"
  by (simp add: get_location_def)

lemma maximum_loop_inv:
  "maximum_loop fs (m0, e0) = Inr (m, e) \<Longrightarrow>
     (\<forall>q\<in>set fs. \<exists>r. magnitude_of q = Some r \<and> r \<le> m) \<and> m0 \<le> m \<and>
     ((m, e) = (m0, e0) \<or> (e \<in> set fs \<and> magnitude_of e = Some m \<and> m0 < m))"
proof (induction fs arbitrary: m0 e0)
  case Nil
  then show ?case by simp
next
  case (Cons q fs)
  from Cons.prems obtain j r where j: "get_magnitude q = Inr j" and r: "py_num j = Some r"
    by (auto split: sum.splits option.splits)
  have mq: "magnitude_of q = Some r" by (simp add: magnitude_of_def j r)
  show ?case
  proof (cases "r > m0")
    case True
    with Cons.prems j r have "maximum_loop fs (r, q) = Inr (m, e)" by simp
    from Cons.IH [OF this] True mq show ?thesis by auto
  next
    case False
    with Cons.prems j r have "maximum_loop fs (m0, e0) = Inr (m, e)" by simp
    from Cons.IH [OF this] False mq show ?thesis by auto
  qed
qed

lemma maximum_loop_low:
  "\<forall>q\<in>set fs. \<exists>r. magnitude_of q = Some r \<and> r \<le> m0 \<Longrightarrow> maximum_loop fs (m0, e0) = Inr (m0, e0)"
proof (induction fs)
  case Nil
  then show ?case by simp
next
  case (Cons q fs)
  then obtain r where "magnitude_of q = Some r" "r \<le> m0" by auto
  then obtain j where "get_magnitude q = Inr j" "py_num j = Some r"
    by (auto simp: magnitude_of_def split: sum.splits)
  with Cons \<open>r \<le> m0\<close> show ?case by simp
qed

lemma maximum_loop_total:
  "\<forall>q\<in>set fs. magnitude_of q \<noteq> None \<Longrightarrow> \<exists>st. maximum_loop fs (m0, e0) = Inr st"
proof (induction fs arbitrary: m0 e0)
  case Nil
  then show ?case by simp
next
  case (Cons q fs)
  then obtain r where "magnitude_of q = Some r" by auto
  then obtain j where "get_magnitude q = Inr j" "py_num j = Some r"
    by (auto simp: magnitude_of_def split: sum.splits)
  with Cons show ?case by simp
qed

section \<open>Properties of the dictionaries and the aggregation loop\<close>




lemma sum_dict_update:
  "sum_list (map snd (dict_update k Suc 0 kvs)) = Suc (sum_list (map snd kvs))"
  by (induction kvs) auto

lemma statistics_loop_fold:
  "statistics_loop tz qs st = Inr st' \<Longrightarrow> st' = fold record_step (counted tz qs) st"
proof (induction qs arbitrary: st)
  case Nil
  then show ?case by simp
next
  case (Cons q qs)
  obtain c m where st: "st = (c, m)" by (cases st)
  show ?case
  proof (cases "year_and_magnitude tz q")
    case (Inl e)
    with Cons.prems st have "statistics_loop tz qs st = Inr st'"
      by (simp split: if_splits)
    from Cons.IH [OF this] Inl show ?thesis by simp
  next
    case (Inr ym)
    obtain y mag where ym: "ym = (y, mag)" by (cases ym)
    with Cons.prems st Inr have "statistics_loop tz qs (record_step ym st) = Inr st'"
      by (simp add: record_step_def)
    from Cons.IH [OF this] Inr show ?thesis by simp
  qed
qed


lemma fold_record_step_sum:
  "sum_list (map snd (fst (fold record_step yms st))) = sum_list (map snd (fst st)) + length yms"
proof (induction yms arbitrary: st)
  case Nil
  then show ?case by simp
next
  case (Cons ym yms)
  then show ?case by (simp add: record_step_def sum_dict_update)
qed




lemma those_Some: "those xs = Some ys \<Longrightarrow> xs = map Some ys"
  by (induction xs arbitrary: ys) (auto split: option.splits)

lemma exact_mean_Inr:
  assumes "exact_mean ms = Inr a"
  shows "\<exists>rs. map py_num ms = map Some rs \<and> a = sum_list rs / of_nat (length ms)"
proof -
  from assms obtain rs where rs: "those (map py_num ms) = Some rs"
    by (auto simp: exact_mean_def split: option.splits)
  from those_Some [OF rs] have eq: "map py_num ms = map Some rs" .
  then have len: "length rs = length ms" by (metis length_map)
  with assms rs have "a = sum_list rs / of_nat (length ms)"
    by (simp add: exact_mean_def)
  with eq show ?thesis by blast
qed


lemma subscript_document: "subscript (document fs) ''features'' = Inr (JList fs)"
  by (simp add: document_def)



section \<open>Skipped records, sample records, time zones and the summary\<close>

lemma statistics_loop_skip:
  "statistics_loop tz qs st = statistics_loop tz (filter (\<lambda>q. \<not> skipped tz q) qs) st"
proof (induction qs arbitrary: st)
  case Nil
  then show ?case by simp
next
  case (Cons q qs)
  obtain c m where st: "st = (c, m)" by (cases st)
  show ?case
  proof (cases "year_and_magnitude tz q")
    case (Inl e)
    with st Cons show ?thesis by (auto simp: skipped_def)
  next
    case (Inr ym)
    with st Cons show ?thesis by (cases ym) (simp add: skipped_def)
  qed
qed

lemma skipped_records_dropped:
  "get_annual_statistics np_mean tz qs =
     get_annual_statistics np_mean tz (filter (\<lambda>q. \<not> skipped tz q) qs)"
  using statistics_loop_skip [of tz qs "([], [])"] by (simp add: get_annual_statistics_def)

lemma all_skipped_empty:
  assumes "\<forall>q\<in>set qs. skipped tz q"
  shows "get_annual_statistics np_mean tz qs = Inr ([], [])"
proof -
  from assms have "filter (\<lambda>q. \<not> skipped tz q) qs = []" by (simp add: filter_empty_conv)
  with skipped_records_dropped [of np_mean tz qs] show ?thesis
    by (simp add: get_annual_statistics_def)
qed

lemma statistics_loop_counted:
  "statistics_loop tz qs st = Inr st' \<Longrightarrow>
     length (counted tz qs) = length (filter (\<lambda>q. \<not> skipped tz q) qs)"
proof (induction qs arbitrary: st)
  case Nil
  then show ?case by simp
next
  case (Cons q qs)
  obtain c m where st: "st = (c, m)" by (cases st)
  show ?case
  proof (cases "year_and_magnitude tz q")
    case (Inl e)
    with Cons.prems st have sk: "skipped tz q" and "statistics_loop tz qs st = Inr st'"
      by (auto simp: skipped_def split: if_splits)
    from Cons.IH [OF this(2)] Inl sk show ?thesis by simp
  next
    case (Inr ym)
    obtain y mag where ym: "ym = (y, mag)" by (cases ym)
    with Cons.prems st Inr have "statistics_loop tz qs (record_step ym st) = Inr st'"
      by (simp add: record_step_def)
    from Cons.IH [OF this] Inr show ?thesis by (simp add: skipped_def)
  qed
qed

lemma counts_example:
  "get_annual_statistics exact_mean utc [quake (JNum 0) (JNum 2), quake (JNum 1000) (JNum 3)]
     = Inr ([(1970, 2)], [(1970, 5 / 2)])"
  by code_simp

lemma counts_example_not_skipped:
  "\<forall>q\<in>set [quake (JNum 0) (JNum 2), quake (JNum 1000) (JNum 3)]. \<not> skipped utc q"
  by code_simp

lemma out_of_range_time_raises:
  "get_annual_statistics np_mean utc [quake (JNum 1000000000000000000) (JNum 2)]
     = Inl ValueError"
proof -
  have "statistics_loop utc [quake (JNum 1000000000000000000) (JNum 2)] ([], [])
          = Inl ValueError"
    by code_simp
  then show ?thesis by (simp add: get_annual_statistics_def)
qed

lemma statistics_of_one_year:
  assumes "statistics_loop utc qs ([], []) = Inr ([(y, n)], [(y, ms)])"
  shows "get_annual_statistics np_mean utc qs =
           (case np_mean ms of Inl e \<Rightarrow> Inl e | Inr a \<Rightarrow> Inr ([(y, n)], [(y, a)]))"
  using assms by (simp add: get_annual_statistics_def split: sum.splits)

lemma sample_record_shape:
  "\<exists>t m p. sample_record env i =
     JObj [(''properties'',
            JObj [(''time'', JNum (of_int t)), (''mag'', JNum m), (''place'', JStr p)])]"
  unfolding sample_record_def Let_def by blast

lemma sample_record_no_location: "get_location (sample_record env i) = Inl KeyError"
  by (simp add: sample_record_def get_location_def Let_def)

lemma subscript_quake:
  "subscript (quake t m) ''properties'' = Inr (JObj [(''time'', t), (''mag'', m)])"
  by (simp add: quake_def)

lemma get_year_example:
  "get_year utc (quake (JNum 946684800000) (JNum 2)) = Inr 2000"
  by code_simp

lemma get_maximum_Inr:
  assumes "get_maximum data = Inr (m, loc)"
  shows "\<exists>fs es e. subscript data ''features'' = Inr fs \<and> py_iter fs = Inr es \<and>
           e \<in> set es \<and> magnitude_of e = Some m \<and> - 1 < m \<and> get_location e = Inr loc"
proof -
  from assms obtain fs es e where fs: "subscript data ''features'' = Inr fs"
    and es: "py_iter fs = Inr es"
    and loop: "maximum_loop es (- 1, JNull) = Inr (m, e)"
    and loc: "get_location e = Inr loc"
    by (auto simp: get_maximum_def split: sum.splits)
  from loc have "e \<noteq> JNull" by (auto simp: get_location_JNull)
  with maximum_loop_inv [OF loop] fs es loc show ?thesis by auto
qed

lemma located_quake_magnitude: "magnitude_of (located_quake m lon lat) = Some m"
  by (simp add: magnitude_of_def get_magnitude_def located_quake_def)

lemma located_quake_location:
  "get_location (located_quake m lon lat) = Inr (JNum lat, JNum lon)"
  by (simp add: get_location_def located_quake_def)

lemma max_key_from_mem: "max_key_from best kvs \<in> fst ` set (best # kvs)"
  by (induction kvs arbitrary: best) auto

lemma min_key_from_mem: "min_key_from best kvs \<in> fst ` set (best # kvs)"
  by (induction kvs arbitrary: best) auto

lemma dict_get_mem: "k \<in> fst ` set d \<Longrightarrow> \<exists>v. dict_get d k = Inr v"
  by (cases "map_of d k") (auto simp: dict_get_def map_of_eq_None_iff)

lemma print_summary_nonempty:
  assumes "d \<noteq> []"
  shows "snd (print_summary d avg) = None"
proof -
  from assms obtain kv kvs where d: "d = kv # kvs" by (cases d) auto
  have y: "sort (map fst d) \<noteq> []" using assms by (metis length_sort length_map length_0_conv)
  have mx: "max_key d = Inr (max_key_from kv kvs)" and mn: "min_key d = Inr (min_key_from kv kvs)"
    by (simp_all add: max_key_def min_key_def d)
  from dict_get_mem [OF max_key_from_mem [of kv kvs]] d obtain a
    where a: "dict_get d (max_key_from kv kvs) = Inr a" by auto
  from dict_get_mem [OF min_key_from_mem [of kv kvs]] d obtain b
    where b: "dict_get d (min_key_from kv kvs) = Inr b" by auto
  from assms y mx mn a b show ?thesis
    by (simp add: print_summary_def Let_def)
qed

section \<open>The calendar year of a day number\<close>

lemma days_before_year_cycle:
  assumes "0 \<le> b" "b \<le> 3" "0 \<le> c" "c \<le> 24" "0 \<le> e" "e \<le> 3"
  shows "days_before_year (400 * a + 100 * b + 4 * c + e + 1)
           = 146097 * a + 36524 * b + 1461 * c + 365 * e"
proof -
  let ?y = "400 * a + 100 * b + 4 * c + e"
  have d4: "?y div 4 = 100 * a + 25 * b + c"
    using assms by (intro int_div_pos_eq [where r = e]) auto
  have d100: "?y div 100 = 4 * a + b"
    using assms by (intro int_div_pos_eq [where r = "4 * c + e"]) auto
  have d400: "?y div 400 = a"
    using assms by (intro int_div_pos_eq [where r = "100 * b + 4 * c + e"]) auto
  show ?thesis
    by (simp add: days_before_year_def Let_def d4 d100 d400)
qed


lemma div_pred:
  assumes "0 < (k::int)"
  shows "(y - 1) div k = (if y mod k = 0 then y div k - 1 else y div k)"
proof (cases "y mod k = 0")
  case True
  have "y - 1 = k * (y div k - 1) + (k - 1)"
    using True mult_div_mod_eq [of k y] by (simp add: algebra_simps)
  then have "(y - 1) div k = y div k - 1"
    using assms by (intro int_div_pos_eq [where r = "k - 1"]) auto
  with True show ?thesis by simp
next
  case False
  have m: "0 \<le> y mod k" "y mod k < k" using assms by simp_all
  have "y - 1 = k * (y div k) + (y mod k - 1)"
    using mult_div_mod_eq [of k y] by simp
  then have "(y - 1) div k = y div k"
    using assms m False by (intro int_div_pos_eq [where r = "y mod k - 1"]) auto
  with False show ?thesis by simp
qed

lemma days_before_year_step: "days_before_year y + 365 \<le> days_before_year (y + 1)"
proof -
  have "(4::int) dvd 100" by simp
  then have a: "y mod 100 = 0 \<Longrightarrow> y mod 4 = 0"
    by (meson dvd_trans mod_eq_0_iff_dvd)
  show ?thesis
    using a by (auto simp: days_before_year_def Let_def div_pred)
qed

lemma days_before_year_mono: "y \<le> y' \<Longrightarrow> days_before_year y \<le> days_before_year y'"
proof (induction y' rule: int_ge_induct)
  case base
  then show ?case by simp
next
  case (step i)
  with days_before_year_step [of i] show ?case by simp
qed


lemma year_of_days_span:
  "days_before_year (year_of_days d) \<le> d + 719162 \<and>
   d + 719162 < days_before_year (year_of_days d + 1)"
proof -
  define n where "n = d + 719162"
  define a where "a = n div 146097"
  define r400 where "r400 = n mod 146097"
  define b where "b = r400 div 36524"
  define r100 where "r100 = r400 mod 36524"
  define c where "c = r100 div 1461"
  define r4 where "r4 = r100 mod 1461"
  define e where "e = r4 div 365"
  define r1 where "r1 = r4 mod 365"
  have n: "n = 146097 * a + r400" and r400: "0 \<le> r400" "r400 < 146097"
    by (simp_all add: a_def r400_def)
  have rb: "r400 = 36524 * b + r100" and r100: "0 \<le> r100" "r100 < 36524"
    by (simp_all add: b_def r100_def)
  have rc: "r100 = 1461 * c + r4" and r4: "0 \<le> r4" "r4 < 1461"
    by (simp_all add: c_def r4_def)
  have re: "r4 = 365 * e + r1" and r1: "0 \<le> r1" "r1 < 365"
    by (simp_all add: e_def r1_def)
  have b: "0 \<le> b" "b \<le> 4" using rb r400 r100 by linarith+
  have c: "0 \<le> c" "c \<le> 24" using rc r100 r4 by linarith+
  have e: "0 \<le> e" "e \<le> 4" using re r4 r1 by linarith+
  have yr: "year_of_days d =
      (if e = 4 \<or> b = 4 then 400 * a + 100 * b + 4 * c + e
       else 400 * a + 100 * b + 4 * c + e + 1)"
    unfolding year_of_days_def Let_def
    unfolding n_def [symmetric] a_def [symmetric] r400_def [symmetric] b_def [symmetric]
      r100_def [symmetric] c_def [symmetric] r4_def [symmetric] e_def [symmetric]
    by simp
  have nn: "d + 719162 = 146097 * a + 36524 * b + 1461 * c + 365 * e + r1"
    using n rb rc re by (simp add: n_def)
  consider (cent) "b = 4" | (quad) "b \<le> 3" "e = 4" | (plain) "b \<le> 3" "e \<le> 3"
    using b e by linarith
  then show ?thesis
  proof cases
    case cent
    with rb r400 r100 rc r4 c re r1 e have z: "c = 0" "e = 0" "r1 = 0" by linarith+
    have y: "year_of_days d = 400 * a + 100 * 3 + 4 * 24 + 3 + 1"
      using yr cent z by simp
    have lo: "days_before_year (400 * a + 100 * 3 + 4 * 24 + 3 + 1)
                = 146097 * a + 36524 * 3 + 1461 * 24 + 365 * 3"
      by (rule days_before_year_cycle) simp_all
    have hi: "days_before_year (400 * (a + 1) + 100 * 0 + 4 * 0 + 0 + 1)
                = 146097 * (a + 1) + 36524 * 0 + 1461 * 0 + 365 * 0"
      by (rule days_before_year_cycle) simp_all
    have hi': "days_before_year (year_of_days d + 1) = 146097 * (a + 1)"
      using hi y by (simp add: algebra_simps)
    from lo hi' y nn cent z show ?thesis by simp
  next
    case quad
    with re r4 r1 have z: "r1 = 0" by linarith
    from quad z rc re r100 have c23: "c \<le> 23" by linarith
    have y: "year_of_days d = 400 * a + 100 * b + 4 * c + 3 + 1"
      using yr quad by simp
    have lo: "days_before_year (400 * a + 100 * b + 4 * c + 3 + 1)
                = 146097 * a + 36524 * b + 1461 * c + 365 * 3"
      using b quad c by (intro days_before_year_cycle) simp_all
    have hi: "days_before_year (400 * a + 100 * b + 4 * (c + 1) + 0 + 1)
                = 146097 * a + 36524 * b + 1461 * (c + 1) + 365 * 0"
      using b quad c c23 by (intro days_before_year_cycle) simp_all
    have hi': "days_before_year (year_of_days d + 1)
                 = 146097 * a + 36524 * b + 1461 * (c + 1)"
      using hi y by (simp add: algebra_simps)
    from lo hi' y nn quad z show ?thesis by simp
  next
    case plain
    have y: "year_of_days d = 400 * a + 100 * b + 4 * c + e + 1"
      using yr plain by auto
    have lo: "days_before_year (400 * a + 100 * b + 4 * c + e + 1)
                = 146097 * a + 36524 * b + 1461 * c + 365 * e"
      using b plain c e by (intro days_before_year_cycle) simp_all
    have hi: "d + 719162 < days_before_year (400 * a + 100 * b + 4 * c + e + 1 + 1)"
    proof -
      consider (e2) "e \<le> 2" | (c23) "e = 3" "c \<le> 23" | (b2) "e = 3" "c = 24" "b \<le> 2"
        | (b3) "e = 3" "c = 24" "b = 3"
        using plain c b e by linarith
      then show ?thesis
      proof cases
        case e2
        have "days_before_year (400 * a + 100 * b + 4 * c + (e + 1) + 1)
                = 146097 * a + 36524 * b + 1461 * c + 365 * (e + 1)"
          using b plain c e e2 by (intro days_before_year_cycle) simp_all
        with nn r1 show ?thesis by (simp add: algebra_simps)
      next
        case c23
        have "days_before_year (400 * a + 100 * b + 4 * (c + 1) + 0 + 1)
                = 146097 * a + 36524 * b + 1461 * (c + 1) + 365 * 0"
          using b plain c c23 by (intro days_before_year_cycle) simp_all
        with nn re r4 c23 show ?thesis by (simp add: algebra_simps)
      next
        case b2
        have "days_before_year (400 * a + 100 * (b + 1) + 4 * 0 + 0 + 1)
                = 146097 * a + 36524 * (b + 1) + 1461 * 0 + 365 * 0"
          using b b2 by (intro days_before_year_cycle) simp_all
        with nn rc re r100 b2 show ?thesis by (simp add: algebra_simps)
      next
        case b3
        have "days_before_year (400 * (a + 1) + 100 * 0 + 4 * 0 + 0 + 1)
                = 146097 * (a + 1) + 36524 * 0 + 1461 * 0 + 365 * 0"
          by (rule days_before_year_cycle) simp_all
        with nn n rb rc re r400 b3 show ?thesis by (simp add: algebra_simps)
      qed
    qed
    from lo hi y nn r1 show ?thesis by simp
  qed
qed

lemma year_of_days_iff:
  "(year_of_days d = y) =
     (days_before_year y \<le> d + 719162 \<and> d + 719162 < days_before_year (y + 1))"
proof
  assume "year_of_days d = y"
  with year_of_days_span [of d] show
    "days_before_year y \<le> d + 719162 \<and> d + 719162 < days_before_year (y + 1)"
    by simp
next
  assume y: "days_before_year y \<le> d + 719162 \<and> d + 719162 < days_before_year (y + 1)"
  show "year_of_days d = y"
  proof (rule ccontr)
    assume "year_of_days d \<noteq> y"
    then consider "year_of_days d + 1 \<le> y" | "y + 1 \<le> year_of_days d" by linarith
    then show False
    proof cases
      case 1
      from days_before_year_mono [OF 1] year_of_days_span [of d] y show False by linarith
    next
      case 2
      from days_before_year_mono [OF 2] year_of_days_span [of d] y show False by linarith
    qed
  qed
qed

lemma get_year_numeric:
  assumes "subscript q ''properties'' = Inr p" and "subscript p ''time'' = Inr ts"
    and "py_num ts = Some t"
  shows "get_year tz q = date_fromtimestamp_year tz (t / 1000)"
  using assms by (simp add: get_year_def)

lemma print_summary_no_division_error:
  "snd (print_summary d avg) \<noteq> Some ZeroDivisionError"
proof (cases "d = []")
  case True
  then show ?thesis by (simp add: print_summary_def)
next
  case False
  with print_summary_nonempty [of d avg] show ?thesis by simp
qed

lemma loop_one_skipped:
  "statistics_loop utc [quake (JNum 0) (JNum 2), quake JNull (JNum 3)] ([], [])
     = Inr ([(1970, 1)], [(1970, [JNum 2])])"
  by code_simp

lemma loop_none_magnitude:
  "statistics_loop utc [quake (JNum 0) (JNum 2), quake (JNum 0) JNull] ([], [])
     = Inr ([(1970, 2)], [(1970, [JNum 2, JNull])])"
  by code_simp

lemma loop_one_record:
  "statistics_loop utc [quake (JNum 0) m] ([], []) = Inr ([(1970, 1)], [(1970, [m])])"
proof -
  have "year_and_magnitude utc (quake (JNum 0) m) = Inr (1970, m)"
  proof -
    have "get_year utc (quake (JNum 0) m) = Inr 1970"
    proof -
      have "date_fromtimestamp_year utc 0 = Inr 1970" by code_simp
      then show ?thesis by (simp add: get_year_def quake_def)
    qed
    then show ?thesis by (simp add: year_and_magnitude_def get_magnitude_def quake_def)
  qed
  then show ?thesis by simp
qed

section \<open>Claims\<close>

text \<open>
  C1. When \<^verbatim>\<open>get_annual_statistics\<close> returns, the sum of the per-year counts is the
  number of records that were not skipped; when no record of the features array is skipped,
  it is the total that \<^verbatim>\<open>count_earthquakes\<close> gives. This holds whatever
  \<^verbatim>\<open>np.mean\<close> does.
\<close>

theorem annual_counts_sum:
  assumes "subscript data ''features'' = Inr (JList qs)"
    and "get_annual_statistics np_mean tz qs = Inr (cnt, avg)"
  shows "sum_list (map snd cnt) = length (filter (\<lambda>q. \<not> skipped tz q) qs) \<and>
         ((\<forall>q\<in>set qs. \<not> skipped tz q) \<longrightarrow>
            count_earthquakes data = Inr (sum_list (map snd cnt)))"
proof -
  from assms(2) obtain m where loop: "statistics_loop tz qs ([], []) = Inr (cnt, m)"
    by (auto simp: get_annual_statistics_def split: sum.splits)
  from statistics_loop_fold [OF loop]
  have "cnt = fst (fold record_step (counted tz qs) ([], []))" by (metis fst_conv)
  with fold_record_step_sum [of "counted tz qs" "([], [])"]
  have "sum_list (map snd cnt) = length (counted tz qs)" by simp
  with statistics_loop_counted [OF loop]
  have s: "sum_list (map snd cnt) = length (filter (\<lambda>q. \<not> skipped tz q) qs)" by simp
  have "count_earthquakes data = Inr (length qs)"
    using assms(1) by (simp add: count_earthquakes_def)
  with s show ?thesis by simp
qed

theorem annual_counts_sum_witness:
  "get_annual_statistics exact_mean utc [quake (JNum 0) (JNum 2), quake (JNum 1000) (JNum 3)]
     = Inr ([(1970, 2)], [(1970, 5 / 2)]) \<and>
   \<not> skipped utc (quake (JNum 0) (JNum 2)) \<and>
   \<not> skipped utc (quake (JNum 1000) (JNum 3)) \<and>
   sum_list (map snd [(1970::int, 2::nat)]) = 2 \<and>
   count_earthquakes (document [quake (JNum 0) (JNum 2), quake (JNum 1000) (JNum 3)])
     = Inr (sum_list (map snd [(1970::int, 2::nat)]))"
  using annual_counts_sum [OF subscript_document counts_example]
    counts_example counts_example_not_skipped
  by simp

text \<open>
  With one skipped record among two, the counts sum to 1 and the array has 2 records:
  with the exact mean, and with any other mean that returns for the list \<open>[2]\<close>.
\<close>

theorem annual_counts_sum_counterexample:
  "get_annual_statistics exact_mean utc [quake (JNum 0) (JNum 2), quake JNull (JNum 3)]
     = Inr ([(1970, 1)], [(1970, 2)]) \<and>
   (\<forall>np_mean :: json list \<Rightarrow> error + rat.
      get_annual_statistics np_mean utc [quake (JNum 0) (JNum 2), quake JNull (JNum 3)]
        = (case np_mean [JNum 2] of
             Inl e \<Rightarrow> Inl e
           | Inr a \<Rightarrow> Inr ([(1970, 1)], [(1970, a)]))) \<and>
   sum_list (map snd [(1970::int, 1::nat)]) = 1 \<and>
   count_earthquakes (document [quake (JNum 0) (JNum 2), quake JNull (JNum 3)]) = Inr 2"
proof -
  have a: "get_annual_statistics exact_mean utc [quake (JNum 0) (JNum 2), quake JNull (JNum 3)]
     = Inr ([(1970, 1)], [(1970, 2)])"
    by code_simp
  have b: "count_earthquakes (document [quake (JNum 0) (JNum 2), quake JNull (JNum 3)])
     = Inr 2"
    by (simp add: count_earthquakes_def document_def)
  have c: "\<forall>np_mean :: json list \<Rightarrow> error + rat.
      get_annual_statistics np_mean utc [quake (JNum 0) (JNum 2), quake JNull (JNum 3)]
        = (case np_mean [JNum 2] of
             Inl e \<Rightarrow> Inl e
           | Inr a \<Rightarrow> Inr ([(1970, 1)], [(1970, a)]))"
    by (intro allI) (rule statistics_of_one_year [OF loop_one_skipped])
  from a b c show ?thesis by simp
qed





text \<open>
  C4. A record whose magnitude is present but is not a number (here None) is not skipped:
  it is counted, and its magnitude reaches \<^verbatim>\<open>np.mean\<close>, which raises TypeError on the
  list \<open>[2, None]\<close> outside the try block; the list without that record gives the
  statistics of the remaining record.
\<close>

theorem malformed_magnitude_not_skipped:
  assumes "np_mean [JNum 2, JNull] = Inl TypeError" and "np_mean [JNum 2] = Inr a"
  shows "get_annual_statistics np_mean utc [quake (JNum 0) (JNum 2), quake (JNum 0) JNull]
           = Inl TypeError \<and>
         get_annual_statistics np_mean utc [quake (JNum 0) (JNum 2)]
           = Inr ([(1970, 1)], [(1970, a)]) \<and>
         \<not> skipped utc (quake (JNum 0) JNull)"
proof -
  have "\<not> skipped utc (quake (JNum 0) JNull)" by code_simp
  with statistics_of_one_year [OF loop_none_magnitude, of np_mean]
    statistics_of_one_year [OF loop_one_record, of np_mean "JNum 2"] assms
  show ?thesis by simp
qed

theorem malformed_magnitude_not_skipped_witness:
  "exact_mean [JNum 2, JNull] = Inl TypeError \<and> exact_mean [JNum 2] = Inr 2 \<and>
   get_annual_statistics exact_mean utc [quake (JNum 0) (JNum 2), quake (JNum 0) JNull]
     = Inl TypeError \<and>
   get_annual_statistics exact_mean utc [quake (JNum 0) (JNum 2)]
     = Inr ([(1970, 1)], [(1970, 2)])"
proof -
  have a: "exact_mean [JNum 2, JNull] = Inl TypeError" and b: "exact_mean [JNum 2] = Inr 2"
    by (simp_all add: exact_mean_def)
  from malformed_magnitude_not_skipped [OF a b] a b show ?thesis by simp
qed

text \<open>
  C5. A list whose only record has a usable time and a magnitude that is not a number
  (None, or a string) has no valid record, yet the record is counted and
  \<^verbatim>\<open>get_annual_statistics\<close> raises the TypeError of \<^verbatim>\<open>np.mean\<close> instead of
  returning two empty dictionaries.
\<close>

theorem no_valid_records_raises:
  assumes "np_mean [JNull] = Inl TypeError" and "np_mean [JStr ''strong''] = Inl TypeError"
  shows "get_annual_statistics np_mean utc [quake (JNum 0) JNull] = Inl TypeError \<and>
         get_annual_statistics np_mean utc [quake (JNum 0) (JStr ''strong'')] = Inl TypeError"
  using statistics_of_one_year [OF loop_one_record, of np_mean JNull]
    statistics_of_one_year [OF loop_one_record, of np_mean "JStr ''strong''"] assms
  by simp

theorem no_valid_records_raises_witness:
  "exact_mean [JNull] = Inl TypeError \<and> exact_mean [JStr ''strong''] = Inl TypeError \<and>
   get_annual_statistics exact_mean utc [quake (JNum 0) JNull] = Inl TypeError \<and>
   get_annual_statistics exact_mean utc [quake (JNum 0) (JStr ''strong'')] = Inl TypeError"
proof -
  have a: "exact_mean [JNull] = Inl TypeError"
    and b: "exact_mean [JStr ''strong''] = Inl TypeError"
    by (simp_all add: exact_mean_def)
  from no_valid_records_raises [OF a b] a b show ?thesis by simp
qed

text \<open>
  C6. When the request raises a \<^verbatim>\<open>RequestException\<close>, or the response has a status
  from 400 to 599, \<^verbatim>\<open>get_data\<close> raises nothing and returns the sample dataset.
\<close>

theorem get_data_fallback:
  "get_data env RequestFailed = Inr (create_sample_data env) \<and>
   (400 \<le> status_code \<and> status_code < 600 \<longrightarrow>
      get_data env (Response status_code body) = Inr (create_sample_data env))"
  by (simp add: get_data_def raise_for_status_def)

theorem get_data_fallback_witness:
  "get_data fixed_env RequestFailed = Inr (create_sample_data fixed_env) \<and>
   (400::int) \<le> 404 \<and> (404::int) < 600 \<and>
   get_data fixed_env (Response 404 (Inr (document []))) = Inr (create_sample_data fixed_env)"
  using get_data_fallback [of fixed_env 404 "Inr (document [])"] by simp

text \<open>
  A response with status 300 and a JSON body is returned as it is, not replaced by the
  sample dataset.
\<close>

theorem get_data_fallback_counterexample:
  "get_data fixed_env (Response 300 (Inr (document []))) = Inr (document []) \<and>
   document [] \<noteq> create_sample_data fixed_env"
  by (simp add: get_data_def raise_for_status_def document_def create_sample_data_def)

text \<open>
  C7. The sample dataset has 1000 records; each consists of properties with an integer
  time in milliseconds, a numeric magnitude and a place string, and has no geometry, so
  \<^verbatim>\<open>get_location\<close> raises KeyError on it.
\<close>

theorem sample_records_shape:
  "\<exists>fs. subscript (create_sample_data env) ''features'' = Inr (JList fs) \<and>
     length fs = 1000 \<and>
     (\<forall>q\<in>set fs.
        (\<exists>t m p. q = JObj [(''properties'',
            JObj [(''time'', JNum (of_int t)), (''mag'', JNum m), (''place'', JStr p)])]) \<and>
        get_location q = Inl KeyError)"
proof -
  let ?fs = "map (sample_record env) [0..<1000]"
  have "subscript (create_sample_data env) ''features'' = Inr (JList ?fs)"
    by (simp add: create_sample_data_def)
  moreover have "length ?fs = 1000" by simp
  moreover have "\<forall>q\<in>set ?fs.
        (\<exists>t m p. q = JObj [(''properties'',
            JObj [(''time'', JNum (of_int t)), (''mag'', JNum m), (''place'', JStr p)])]) \<and>
        get_location q = Inl KeyError"
    using sample_record_shape sample_record_no_location by auto
  ultimately show ?thesis by blast
qed

theorem sample_records_shape_witness:
  "\<exists>fs. subscript (create_sample_data fixed_env) ''features'' = Inr (JList fs) \<and>
     fs \<noteq> [] \<and> get_location (hd fs) = Inl KeyError"
proof -
  from sample_records_shape [of fixed_env] obtain fs
    where f: "subscript (create_sample_data fixed_env) ''features'' = Inr (JList fs)"
      and l: "length fs = 1000"
      and a: "\<forall>q\<in>set fs. get_location q = Inl KeyError"
    by blast
  from l have ne: "fs \<noteq> []" by auto
  then have "hd fs \<in> set fs" by simp
  with a f ne show ?thesis by blast
qed

text \<open>
  The first sample record of a fixed environment: no longitude and no latitude.
\<close>

theorem sample_record_location_counterexample:
  "sample_record fixed_env 0 =
     JObj [(''properties'',
            JObj [(''time'', JNum 946684800000), (''mag'', JNum (5 / 2)),
                  (''place'', JStr ''Sample Location 0'')])] \<and>
   get_location (sample_record fixed_env 0) = Inl KeyError"
  by code_simp

text \<open>
  C8. For a record with a numeric timestamp and a process in a given time zone,
  \<^verbatim>\<open>get_year\<close> returns \<open>y\<close> exactly when \<open>y\<close> is between 1 and 9999 and the local
  day of the timestamp, counted from 0001-01-01, lies in the span of days of the calendar
  year \<open>y\<close>. So the year is determined by the timestamp and the time zone, there is at
  most one, and another record with the same timestamp gets the same result.
\<close>

theorem get_year_deterministic:
  assumes "subscript q ''properties'' = Inr p" and "subscript p ''time'' = Inr ts"
    and "py_num ts = Some t"
  shows "(get_year tz q = Inr y) =
           (1 \<le> y \<and> y \<le> 9999 \<and>
            days_before_year y \<le> (\<lfloor>t / 1000\<rfloor> + tz \<lfloor>t / 1000\<rfloor>) div 86400 + 719162 \<and>
            (\<lfloor>t / 1000\<rfloor> + tz \<lfloor>t / 1000\<rfloor>) div 86400 + 719162 < days_before_year (y + 1)) \<and>
         (\<forall>q' p'. subscript q' ''properties'' = Inr p' \<longrightarrow>
                   subscript p' ''time'' = Inr ts \<longrightarrow> get_year tz q' = get_year tz q)"
proof -
  let ?d = "(\<lfloor>t / 1000\<rfloor> + tz \<lfloor>t / 1000\<rfloor>) div 86400"
  have g: "get_year tz q = date_fromtimestamp_year tz (t / 1000)"
    using assms by (rule get_year_numeric)
  have "(get_year tz q = Inr y) = (year_of_days ?d = y \<and> 1 \<le> y \<and> y \<le> 9999)"
    unfolding g by (auto simp: date_fromtimestamp_year_def Let_def)
  also have "\<dots> = (1 \<le> y \<and> y \<le> 9999 \<and> days_before_year y \<le> ?d + 719162 \<and>
                    ?d + 719162 < days_before_year (y + 1))"
    unfolding year_of_days_iff by auto
  finally have first: "(get_year tz q = Inr y) =
     (1 \<le> y \<and> y \<le> 9999 \<and> days_before_year y \<le> ?d + 719162 \<and>
      ?d + 719162 < days_before_year (y + 1))" .
  have second: "\<forall>q' p'. subscript q' ''properties'' = Inr p' \<longrightarrow>
                   subscript p' ''time'' = Inr ts \<longrightarrow> get_year tz q' = get_year tz q"
    using assms by (simp add: get_year_def)
  from first second show ?thesis by blast
qed

theorem get_year_deterministic_witness:
  "get_year utc (quake (JNum 946684800000) (JNum 2)) = Inr 2000 \<and>
   days_before_year 2000 \<le> (946684800 + utc 946684800) div 86400 + 719162 \<and>
   (946684800 + utc 946684800) div 86400 + 719162 < days_before_year 2001 \<and>
   get_year utc (quake (JNum 946684800000) (JNum 2)) \<noteq> Inr 1999 \<and>
   get_year utc (quake (JNum 946684800000) JNull)
     = get_year utc (quake (JNum 946684800000) (JNum 2))"
proof -
  have ts: "subscript (JObj [(''time'', JNum 946684800000), (''mag'', JNum 2)]) ''time''
              = Inr (JNum 946684800000)"
    by simp
  have ts': "subscript (JObj [(''time'', JNum 946684800000), (''mag'', JNull)]) ''time''
              = Inr (JNum 946684800000)"
    by simp
  have n: "py_num (JNum 946684800000) = Some 946684800000" by simp
  have fl: "\<lfloor>946684800000 / 1000 :: rat\<rfloor> = 946684800" by simp
  note d = get_year_deterministic [OF subscript_quake ts n, of utc]
  from d [of 2000] get_year_example
  have span: "days_before_year 2000 \<le> (946684800 + utc 946684800) div 86400 + 719162 \<and>
     (946684800 + utc 946684800) div 86400 + 719162 < days_before_year 2001"
    by (simp add: fl)
  from d [of 1999] get_year_example
  have no: "get_year utc (quake (JNum 946684800000) (JNum 2)) \<noteq> Inr 1999" by simp
  from d [of 2000] subscript_quake [of "JNum 946684800000" JNull] ts'
  have same: "get_year utc (quake (JNum 946684800000) JNull)
     = get_year utc (quake (JNum 946684800000) (JNum 2))"
    by blast
  from get_year_example span no same show ?thesis by simp
qed

text \<open>
  The last millisecond of 2018 in UTC: the same record is of 2018 for a process in UTC
  and of 2019 for a process one hour east of it.
\<close>

theorem get_year_time_zone_counterexample:
  "get_year utc (quake (JNum 1546300799999) (JNum 2)) = Inr 2018 \<and>
   get_year (\<lambda>t. 3600) (quake (JNum 1546300799999) (JNum 2)) = Inr 2019"
  by code_simp

text \<open>
  C9. For a features array whose records all have numeric magnitudes: when no magnitude
  exceeds -1 (the empty array included), \<^verbatim>\<open>get_maximum\<close> raises TypeError from
  \<^verbatim>\<open>get_location(None)\<close>; when some magnitude exceeds -1 and the records have
  locations, it returns; and whenever it returns, the magnitude returned exceeds -1 and is
  the magnitude of a record.
\<close>

theorem get_maximum_precondition:
  assumes "subscript data ''features'' = Inr (JList fs)"
    and "\<forall>q\<in>set fs. magnitude_of q \<noteq> None"
  shows "((\<forall>q\<in>set fs. \<forall>r. magnitude_of q = Some r \<longrightarrow> r \<le> - 1) \<longrightarrow>
            get_maximum data = Inl TypeError) \<and>
         ((\<exists>q\<in>set fs. \<exists>r. magnitude_of q = Some r \<and> - 1 < r) \<and>
          (\<forall>q\<in>set fs. \<exists>loc. get_location q = Inr loc) \<longrightarrow>
            (\<exists>m loc. get_maximum data = Inr (m, loc))) \<and>
         (\<forall>m loc. get_maximum data = Inr (m, loc) \<longrightarrow>
            - 1 < m \<and> (\<exists>q\<in>set fs. magnitude_of q = Some m))"
proof (intro conjI impI allI)
  assume low: "\<forall>q\<in>set fs. \<forall>r. magnitude_of q = Some r \<longrightarrow> r \<le> - 1"
  with assms(2) have "\<forall>q\<in>set fs. \<exists>r. magnitude_of q = Some r \<and> r \<le> - 1" by auto
  from maximum_loop_low [OF this, of JNull] assms(1) show "get_maximum data = Inl TypeError"
    by (simp add: get_maximum_def get_location_JNull)
next
  assume h: "(\<exists>q\<in>set fs. \<exists>r. magnitude_of q = Some r \<and> - 1 < r) \<and>
             (\<forall>q\<in>set fs. \<exists>loc. get_location q = Inr loc)"
  from maximum_loop_total [OF assms(2), of "- 1" JNull] obtain m e
    where loop: "maximum_loop fs (- 1, JNull) = Inr (m, e)" by (metis surj_pair)
  from h obtain q r where q: "q \<in> set fs" "magnitude_of q = Some r" "- 1 < r" by blast
  from maximum_loop_inv [OF loop] q have "- 1 < m" by fastforce
  with maximum_loop_inv [OF loop] have "e \<in> set fs" by auto
  with h obtain loc where "get_location e = Inr loc" by blast
  with loop assms(1) have "get_maximum data = Inr (m, loc)"
    by (simp add: get_maximum_def)
  then show "\<exists>m loc. get_maximum data = Inr (m, loc)" by blast
next
  fix m loc
  assume r: "get_maximum data = Inr (m, loc)"
  from get_maximum_Inr [OF r] assms(1) show "- 1 < m" by auto
  from get_maximum_Inr [OF r] assms(1) show "\<exists>q\<in>set fs. magnitude_of q = Some m" by auto
qed

theorem get_maximum_precondition_witness:
  "get_maximum (document []) = Inl TypeError \<and>
   get_maximum (document [located_quake (- 1) 0 0, located_quake (- 2) 1 1]) = Inl TypeError \<and>
   (\<exists>m loc. get_maximum (document [located_quake (- 1) 0 0, located_quake 2 1 50])
      = Inr (m, loc))"
proof -
  have a: "get_maximum (document []) = Inl TypeError"
    using get_maximum_precondition [OF subscript_document, of "[]"] by simp
  have b: "get_maximum (document [located_quake (- 1) 0 0, located_quake (- 2) 1 1])
             = Inl TypeError"
    using get_maximum_precondition
      [OF subscript_document, of "[located_quake (- 1) 0 0, located_quake (- 2) 1 1]"]
    by (simp add: located_quake_magnitude)
  have c: "\<exists>m loc. get_maximum (document [located_quake (- 1) 0 0, located_quake 2 1 50])
             = Inr (m, loc)"
    using get_maximum_precondition
      [OF subscript_document, of "[located_quake (- 1) 0 0, located_quake 2 1 50]"]
    by (simp add: located_quake_magnitude located_quake_location)
  from a b c show ?thesis by blast
qed

text \<open>
  The sentinel -1 is never returned, whatever the document.
\<close>

theorem get_maximum_never_sentinel:
  "\<not> (\<exists>data loc. get_maximum data = Inr (- 1, loc))"
  using get_maximum_Inr by fastforce

text \<open>
  C10. Aggregation of the empty list gives two empty dictionaries, and on them
  \<^verbatim>\<open>print_summary\<close> prints the header and raises IndexError at \<^verbatim>\<open>years[0]\<close>. It
  ends without an exception exactly when the count dictionary is not empty, and it never
  raises ZeroDivisionError: the division by \<^verbatim>\<open>len(years)\<close> is reached only when there
  is a year.
\<close>

theorem print_summary_empty:
  "get_annual_statistics np_mean tz [] = Inr ([], []) \<and>
   print_summary [] avg = ([Header], Some IndexError) \<and>
   (snd (print_summary d avg) = None) = (d \<noteq> []) \<and>
   snd (print_summary d avg) \<noteq> Some ZeroDivisionError"
proof -
  have "get_annual_statistics np_mean tz [] = Inr ([], [])"
    by (simp add: get_annual_statistics_def)
  moreover have e: "print_summary [] avg = ([Header], Some IndexError)"
    by (simp add: print_summary_def)
  moreover have "(snd (print_summary d avg) = None) = (d \<noteq> [])"
    using print_summary_nonempty [of d avg] e by (cases "d = []") auto
  ultimately show ?thesis using print_summary_no_division_error [of d avg] by blast
qed

text \<open>
  On the empty statistics the exception is the IndexError, and no input at all makes the
  division fail.
\<close>

theorem print_summary_division_counterexample:
  "print_summary [] ([] :: (int \<times> rat) list) = ([Header], Some IndexError) \<and>
   \<not> (\<exists>d (avg :: (int \<times> rat) list). snd (print_summary d avg) = Some ZeroDivisionError)"
  using print_summary_no_division_error by (simp add: print_summary_def)

end
